theory Spec2Isabelle
  imports Main "HOL-Library.Monad_Syntax"
begin

section \<open>The Ollama provider adapter of package mcp\<close>

text \<open>
  The development follows the revision of the adapter that chooses between the native
  Ollama dialect and the OpenAI-compatible one from the configured base URL
  (\<^verbatim>\<open>DefaultOllamaBaseURL = "https://api.ollama.com/v1"\<close>). Go strings and byte slices
  are byte sequences; they are modelled as \<^typ>\<open>string\<close>, whose characters are bytes.
\<close>

subsection \<open>Library functions of package strings\<close>

text \<open>
  \<^verbatim>\<open>HasSuffix(s, suffix) = len(s) >= len(suffix) && s[len(s)-len(suffix):] == suffix\<close>
\<close>

definition HasSuffix :: "string \<Rightarrow> string \<Rightarrow> bool" where
  "HasSuffix s suffix \<longleftrightarrow>
     length s \<ge> length suffix \<and> drop (length s - length suffix) s = suffix"

text \<open>
  \<^verbatim>\<open>TrimSuffix(s, suffix)\<close> returns \<^verbatim>\<open>s[:len(s)-len(suffix)]\<close> when \<^verbatim>\<open>s\<close> has the
  suffix and \<^verbatim>\<open>s\<close> itself otherwise.
\<close>

definition TrimSuffix :: "string \<Rightarrow> string \<Rightarrow> string" where
  "TrimSuffix s suffix =
     (if HasSuffix s suffix then take (length s - length suffix) s else s)"

subsection \<open>Configuration\<close>

text \<open>
  The fields of the embedded base client that the adapter reads or writes. The base
  client's further fields are the extension part of the record. The logger is
  represented by the lines it has been asked to print, oldest first.
\<close>

record Client =
  Provider :: string
  APIKey :: string
  BaseURL :: string
  Model :: string
  logger :: "string list"

definition ProviderOllama :: string where
  "ProviderOllama = ''ollama''"

definition DefaultOllamaBaseURL :: string where
  "DefaultOllamaBaseURL = ''https://api.ollama.com/v1''"

definition DefaultOllamaModel :: string where
  "DefaultOllamaModel = ''glm-4.7:cloud''"

subsection \<open>Wire format\<close>

datatype WireFormat = NativeFormat | CompatibleFormat

text \<open>
  The source has no function of its own for the classification: the expression bound to
  \<^verbatim>\<open>isNativeFormat\<close> is written out in \<^verbatim>\<open>buildMCPRequestBody\<close> and again in
  \<^verbatim>\<open>parseMCPResponse\<close>, and \<^verbatim>\<open>buildUrl\<close> tests the same four conditions in two steps.
  \<open>FormatResolver\<close> is that expression; the three functions below do not call it but
  carry their own copy, as in the source.
\<close>

definition FormatResolver :: "string \<Rightarrow> WireFormat" where
  "FormatResolver baseURL =
     (if baseURL = ''https://ollama.com'' \<or>
         baseURL = ''http://ollama.com'' \<or>
         HasSuffix baseURL ''ollama.com'' \<or>
         HasSuffix baseURL ''ollama.com/''
      then NativeFormat else CompatibleFormat)"

subsection \<open>Endpoint\<close>

definition buildUrl :: "'a Client_scheme \<Rightarrow> string" where
  "buildUrl oc =
     (let baseURL = BaseURL oc in
      if baseURL = ''https://ollama.com'' \<or> baseURL = ''http://ollama.com''
      then baseURL @ ''/api/chat''
      else if HasSuffix baseURL ''ollama.com'' \<or> HasSuffix baseURL ''ollama.com/''
      then (let baseURL = TrimSuffix baseURL ''/'' in baseURL @ ''/api/chat'')
      else baseURL @ ''/chat/completions'')"

subsection \<open>Credentials and overrides\<close>

text \<open>
  A slice expression \<^verbatim>\<open>s[lo:hi]\<close> panics unless \<^verbatim>\<open>0 <= lo <= hi <= len(s)\<close>;
  \<open>None\<close> is the panic.
\<close>

definition slice :: "string \<Rightarrow> int \<Rightarrow> int \<Rightarrow> string option" where
  "slice s lo hi =
     (if 0 \<le> lo \<and> lo \<le> hi \<and> hi \<le> int (length s)
      then Some (take (nat (hi - lo)) (drop (nat lo) s)) else None)"

text \<open>The wrench sign U+1F527 that opens every log line, in UTF-8.\<close>

definition wrench :: string where
  "wrench = [CHR 0xF0, CHR 0x9F, CHR 0x94, CHR 0xA7]"

text \<open>
  \<^verbatim>\<open>oc.logger.Infof(format, args...)\<close>: the line is appended to the logger's output. The
  formats of the adapter only use the verb \<^verbatim>\<open>%s\<close> on strings, which copies the bytes,
  so the formatted line is written as a concatenation at each call.
\<close>

definition Infof :: "'a Client_scheme \<Rightarrow> string \<Rightarrow> 'a Client_scheme" where
  "Infof oc line = oc\<lparr>logger := logger oc @ [line]\<rparr>"

text \<open>
  \<open>SetAPIKey\<close> writes the client in place; the model returns the client after the call,
  or \<open>None\<close> when a slice expression of the call panics.
\<close>

definition SetAPIKey ::
  "'a Client_scheme \<Rightarrow> string \<Rightarrow> string \<Rightarrow> string \<Rightarrow> 'a Client_scheme option" where
  "SetAPIKey oc apiKey customURL customModel = do {
     let oc = oc\<lparr>APIKey := apiKey\<rparr>;
     oc \<leftarrow> (if int (length apiKey) > 8 then do {
              head \<leftarrow> slice apiKey 0 4;
              tail \<leftarrow> slice apiKey (int (length apiKey) - 4) (int (length apiKey));
              Some (Infof oc (wrench @ '' [MCP] Ollama API Key: '' @ head @ ''...'' @ tail))
            } else Some oc);
     let oc = (if customURL \<noteq> []
               then Infof (oc\<lparr>BaseURL := customURL\<rparr>)
                      (wrench @ '' [MCP] Ollama using custom BaseURL: '' @ customURL)
               else Infof oc (wrench @ '' [MCP] Ollama using default BaseURL: '' @ BaseURL oc));
     let oc = (if customModel \<noteq> []
               then Infof (oc\<lparr>Model := customModel\<rparr>)
                      (wrench @ '' [MCP] Ollama using custom Model: '' @ customModel)
               else Infof oc (wrench @ '' [MCP] Ollama using default Model: '' @ Model oc));
     Some oc
   }"

subsection \<open>Authentication header\<close>

text \<open>
  \<^verbatim>\<open>http.Header\<close> is a map from header names to value lists. \<^verbatim>\<open>Header.Set\<close> stores the
  single value under the canonical form of the key: in a key made of token bytes only,
  the first letter and every letter after a hyphen are upper case and all other letters
  lower case; any other key is left as it is.
\<close>

type_synonym Header = "string \<rightharpoonup> string list"

definition validHeaderFieldByte :: "char \<Rightarrow> bool" where
  "validHeaderFieldByte c \<longleftrightarrow>
     (let n = (of_char c :: nat) in
      (48 \<le> n \<and> n \<le> 57) \<or> (65 \<le> n \<and> n \<le> 90) \<or> (97 \<le> n \<and> n \<le> 122) \<or>
      List.member [33, 35, 36, 37, 38, 39, 42, 43, 45, 46, 94, 95, 96, 124, 126] n)"

fun canonicalLoop :: "bool \<Rightarrow> string \<Rightarrow> string" where
  "canonicalLoop upper [] = []"
| "canonicalLoop upper (c # cs) =
     (let n = (of_char c :: nat);
          c' = (if upper \<and> 97 \<le> n \<and> n \<le> 122 then char_of (n - 32)
                else if \<not> upper \<and> 65 \<le> n \<and> n \<le> 90 then char_of (n + 32)
                else c)
      in c' # canonicalLoop (c' = CHR ''-'') cs)"

definition CanonicalMIMEHeaderKey :: "string \<Rightarrow> string" where
  "CanonicalMIMEHeaderKey s =
     (if list_all validHeaderFieldByte s then canonicalLoop True s else s)"

definition Header_Set :: "Header \<Rightarrow> string \<Rightarrow> string \<Rightarrow> Header" where
  "Header_Set h key v = h(CanonicalMIMEHeaderKey key \<mapsto> [v])"

text \<open>
  The header map is shared with the caller; the model returns the updated map.
\<close>

definition setAuthHeader :: "'a Client_scheme \<Rightarrow> Header \<Rightarrow> Header" where
  "setAuthHeader oc reqHeaders =
     Header_Set reqHeaders ''Authorization'' (''Bearer '' @ APIKey oc)"

subsection \<open>Request payload\<close>

text \<open>
  The values of a \<^verbatim>\<open>map[string]any\<close>: the three kinds the adapter stores, and whatever
  else the base client's builder may store.
\<close>

datatype 'v any =
    AnyString string
  | AnyBool bool
  | AnyMessages "(string \<rightharpoonup> string) list"
  | AnyOther 'v

type_synonym 'v RequestBody = "string \<rightharpoonup> 'v any"

text \<open>
  The first argument is the base client's own \<^verbatim>\<open>buildMCPRequestBody\<close>, called through the
  embedded \<^verbatim>\<open>*Client\<close>.
\<close>

definition buildMCPRequestBody ::
  "('a Client_scheme \<Rightarrow> string \<Rightarrow> string \<Rightarrow> 'v RequestBody) \<Rightarrow>
   'a Client_scheme \<Rightarrow> string \<Rightarrow> string \<Rightarrow> 'v RequestBody" where
  "buildMCPRequestBody Client_buildMCPRequestBody oc systemPrompt userPrompt =
     (let baseURL = BaseURL oc;
          isNativeFormat = (baseURL = ''https://ollama.com'' \<or>
                            baseURL = ''http://ollama.com'' \<or>
                            HasSuffix baseURL ''ollama.com'' \<or>
                            HasSuffix baseURL ''ollama.com/'')
      in if isNativeFormat then
           (let messages = [];
                messages = (if systemPrompt \<noteq> []
                            then messages @ [[''role'' \<mapsto> ''system'', ''content'' \<mapsto> systemPrompt]]
                            else messages);
                messages = messages @ [[''role'' \<mapsto> ''user'', ''content'' \<mapsto> userPrompt]]
            in [''model'' \<mapsto> AnyString (Model oc),
                ''messages'' \<mapsto> AnyMessages messages,
                ''stream'' \<mapsto> AnyBool False])
         else Client_buildMCPRequestBody oc systemPrompt userPrompt)"

subsection \<open>Response payload\<close>

text \<open>
  Go errors: \<^verbatim>\<open>fmt.Errorf\<close> with a plain format, \<^verbatim>\<open>fmt.Errorf\<close> wrapping an error with
  \<^verbatim>\<open>%w\<close>, and the errors made outside the adapter (by the decoder and by the base
  client's parser).
\<close>

datatype 'e error =
    Errorf string
  | ErrorfWrap string "'e error"
  | External 'e

text \<open>The anonymous struct the native reply is decoded into.\<close>

record message =
  Content :: string

record result =
  Message :: message
  Done :: bool

text \<open>
  A Go pair \<^verbatim>\<open>(string, error)\<close> is a pair of the string and the error, \<open>None\<close> for
  \<^verbatim>\<open>nil\<close>. The first argument is \<^verbatim>\<open>json.Unmarshal\<close> into the zero value of the struct:
  its error, or the decoded struct. The second is the base client's own
  \<^verbatim>\<open>parseMCPResponse\<close>.
\<close>

definition parseMCPResponse ::
  "(string \<Rightarrow> 'e error + result) \<Rightarrow>
   ('a Client_scheme \<Rightarrow> string \<Rightarrow> string \<times> 'e error option) \<Rightarrow>
   'a Client_scheme \<Rightarrow> string \<Rightarrow> string \<times> 'e error option" where
  "parseMCPResponse Unmarshal Client_parseMCPResponse oc body =
     (let baseURL = BaseURL oc;
          isNativeFormat = (baseURL = ''https://ollama.com'' \<or>
                            baseURL = ''http://ollama.com'' \<or>
                            HasSuffix baseURL ''ollama.com'' \<or>
                            HasSuffix baseURL ''ollama.com/'')
      in if isNativeFormat then
           (case Unmarshal body of
              Inl err \<Rightarrow> ([], Some (ErrorfWrap ''failed to parse Ollama response: '' err))
            | Inr result \<Rightarrow>
                if Content (Message result) = []
                then ([], Some (Errorf ''Ollama returned empty response''))
                else (Content (Message result), None))
         else Client_parseMCPResponse oc body)"

text \<open>The specification's names for the two errors that the native branch makes.\<close>

definition DecodeError :: "'e error \<Rightarrow> 'e error" where
  "DecodeError err = ErrorfWrap ''failed to parse Ollama response: '' err"

definition EmptyReplyError :: "'e error" where
  "EmptyReplyError = Errorf ''Ollama returned empty response''"

subsection \<open>The decoder of package encoding/json\<close>

text \<open>
  \<^verbatim>\<open>json.Unmarshal\<close> belongs to the Go library. \<open>parseMCPResponse\<close> takes it as an
  argument; what follows is a model of it for the reply struct, to run the parser on
  concrete replies. It follows the library in two phases: the whole input is checked
  against the JSON grammar, then the value is stored into the struct.
\<close>

datatype json_error = SyntaxError | UnmarshalTypeError string

datatype json =
    JNull
  | JBool bool
  | JNumber string
  | JString string
  | JArray "json list"
  | JObject "(string \<times> json) list"

subsubsection \<open>Runes\<close>

text \<open>
  \<^verbatim>\<open>utf8.EncodeRune\<close>: a surrogate half or a value beyond U+10FFFF is encoded as the
  replacement character U+FFFD.
\<close>

definition byte :: "int \<Rightarrow> char" where
  "byte n = char_of (nat n)"

definition EncodeRune :: "int \<Rightarrow> string" where
  "EncodeRune r =
     (if 0 \<le> r \<and> r \<le> 0x7F then [byte r]
      else if 0 \<le> r \<and> r \<le> 0x7FF then [byte (0xC0 + r div 64), byte (0x80 + r mod 64)]
      else if r < 0 \<or> r > 0x10FFFF \<or> (0xD800 \<le> r \<and> r \<le> 0xDFFF)
      then [CHR 0xEF, CHR 0xBF, CHR 0xBD]
      else if r \<le> 0xFFFF
      then [byte (0xE0 + r div 4096), byte (0x80 + (r div 64) mod 64), byte (0x80 + r mod 64)]
      else [byte (0xF0 + r div 262144), byte (0x80 + (r div 4096) mod 64),
            byte (0x80 + (r div 64) mod 64), byte (0x80 + r mod 64)])"

text \<open>
  The number of bytes of the well-formed UTF-8 sequence at the head of the string, and
  0 when the head is not one (\<^verbatim>\<open>utf8.DecodeRune\<close> then yields the replacement character
  and a width of 1).
\<close>

definition inRange :: "string \<Rightarrow> nat \<Rightarrow> nat \<Rightarrow> nat \<Rightarrow> bool" where
  "inRange s i lo hi \<longleftrightarrow> i < length s \<and> lo \<le> of_char (s ! i) \<and> of_char (s ! i) \<le> (hi :: nat)"

definition runeWidth :: "string \<Rightarrow> nat" where
  "runeWidth s =
     (if inRange s 0 0xC2 0xDF then (if inRange s 1 0x80 0xBF then 2 else 0)
      else if inRange s 0 0xE0 0xEF then
        (if (if inRange s 0 0xE0 0xE0 then inRange s 1 0xA0 0xBF
             else if inRange s 0 0xED 0xED then inRange s 1 0x80 0x9F
             else inRange s 1 0x80 0xBF) \<and> inRange s 2 0x80 0xBF
         then 3 else 0)
      else if inRange s 0 0xF0 0xF4 then
        (if (if inRange s 0 0xF0 0xF0 then inRange s 1 0x90 0xBF
             else if inRange s 0 0xF4 0xF4 then inRange s 1 0x80 0x8F
             else inRange s 1 0x80 0xBF) \<and> inRange s 2 0x80 0xBF \<and> inRange s 3 0x80 0xBF
         then 4 else 0)
      else 0)"

subsubsection \<open>String literals\<close>

definition hexDigit :: "char \<Rightarrow> int option" where
  "hexDigit c =
     (let n = (of_char c :: int) in
      if 48 \<le> n \<and> n \<le> 57 then Some (n - 48)
      else if 97 \<le> n \<and> n \<le> 102 then Some (n - 87)
      else if 65 \<le> n \<and> n \<le> 70 then Some (n - 55)
      else None)"

text \<open>
  \<^verbatim>\<open>getu4\<close>: the value of the escape \<^verbatim>\<open>\uXXXX\<close> at the head of the string, and -1 when
  the head is not such an escape.
\<close>

definition getu4 :: "string \<Rightarrow> int" where
  "getu4 s =
     (if length s < 6 \<or> s ! 0 \<noteq> CHR 0x5C \<or> s ! 1 \<noteq> CHR ''u'' then - 1
      else case (hexDigit (s ! 2), hexDigit (s ! 3), hexDigit (s ! 4), hexDigit (s ! 5)) of
             (Some a, Some b, Some c, Some d) \<Rightarrow> ((a * 16 + b) * 16 + c) * 16 + d
           | _ \<Rightarrow> - 1)"

definition IsSurrogate :: "int \<Rightarrow> bool" where
  "IsSurrogate r \<longleftrightarrow> 0xD800 \<le> r \<and> r < 0xE000"

definition utf16_DecodeRune :: "int \<Rightarrow> int \<Rightarrow> int" where
  "utf16_DecodeRune r1 r2 =
     (if 0xD800 \<le> r1 \<and> r1 < 0xDC00 \<and> 0xDC00 \<le> r2 \<and> r2 < 0xE000
      then (r1 - 0xD800) * 1024 + (r2 - 0xDC00) + 0x10000
      else 0xFFFD)"

definition simpleEscape :: "char \<Rightarrow> char option" where
  "simpleEscape c =
     (if c = CHR 0x22 \<or> c = CHR 0x5C \<or> c = CHR ''/'' then Some c
      else if c = CHR ''b'' then Some (CHR 0x08)
      else if c = CHR ''f'' then Some (CHR 0x0C)
      else if c = CHR ''n'' then Some (CHR 0x0A)
      else if c = CHR ''r'' then Some (CHR 0x0D)
      else if c = CHR ''t'' then Some (CHR 0x09)
      else None)"

text \<open>
  The text between the quotes of a string literal, checked as the scanner checks it (no
  control character, only the escapes of the grammar) and unquoted as \<^verbatim>\<open>unquoteBytes\<close>
  does: escapes are replaced, a surrogate pair of two escapes is one rune, a surrogate
  half alone and every byte that is not part of well-formed UTF-8 become U+FFFD.
\<close>

fun unquote :: "string \<Rightarrow> string option" where
  "unquote [] = Some []"
| "unquote (c # cs) =
     (if c = CHR 0x5C then
        (case cs of
           [] \<Rightarrow> None
         | e # es \<Rightarrow>
             if e = CHR ''u'' then
               (let rr = getu4 (c # cs) in
                if rr < 0 then None
                else if IsSurrogate rr \<and> utf16_DecodeRune rr (getu4 (drop 4 es)) \<noteq> 0xFFFD
                then map_option ((@) (EncodeRune (utf16_DecodeRune rr (getu4 (drop 4 es)))))
                       (unquote (drop 10 es))
                else map_option ((@) (EncodeRune (if IsSurrogate rr then 0xFFFD else rr)))
                       (unquote (drop 4 es)))
             else (case simpleEscape e of
                     None \<Rightarrow> None
                   | Some b \<Rightarrow> map_option ((#) b) (unquote es)))
      else if (of_char c :: nat) < 0x20 \<or> c = CHR 0x22 then None
      else if (of_char c :: nat) < 0x80 then map_option ((#) c) (unquote cs)
      else if runeWidth (c # cs) = 0
      then map_option ((@) [CHR 0xEF, CHR 0xBF, CHR 0xBD]) (unquote cs)
      else map_option ((@) (take (runeWidth (c # cs)) (c # cs)))
             (unquote (drop (runeWidth (c # cs) - 1) cs)))"

subsubsection \<open>Numbers\<close>

definition isDigit :: "char \<Rightarrow> bool" where
  "isDigit c \<longleftrightarrow> 48 \<le> (of_char c :: nat) \<and> (of_char c :: nat) \<le> 57"

definition startsWith :: "string \<Rightarrow> string \<Rightarrow> bool" where
  "startsWith s cs \<longleftrightarrow> s \<noteq> [] \<and> List.member cs (hd s)"

text \<open>
  The number grammar: an optional minus sign, \<^verbatim>\<open>0\<close> or a digit sequence without a leading
  zero, an optional fraction, an optional exponent.
\<close>

definition validNumber :: "string \<Rightarrow> bool" where
  "validNumber raw =
     (let s1 = (if startsWith raw ''-'' then tl raw else raw);
          ds = takeWhile isDigit s1;
          s2 = dropWhile isDigit s1;
          s3 = (if startsWith s2 ''.'' then dropWhile isDigit (tl s2) else s2);
          s4 = (if startsWith s3 ''eE'' then tl s3 else s3);
          s5 = (if startsWith s3 ''eE'' \<and> startsWith s4 ''+-'' then tl s4 else s4)
      in (ds = ''0'' \<or> (ds \<noteq> [] \<and> hd ds \<noteq> CHR ''0'')) \<and>
         (if startsWith s2 ''.'' then takeWhile isDigit (tl s2) \<noteq> [] else True) \<and>
         (if startsWith s3 ''eE'' then s5 \<noteq> [] \<and> list_all isDigit s5 else s3 = []))"

subsubsection \<open>Tokens\<close>

datatype token =
    LBrace | RBrace | LBracket | RBracket | Colon | Comma
  | TString string
  | TNumber string
  | TWord string

text \<open>
  The state between two bytes: outside a token, inside a string literal (with the bytes
  read so far, last first, and whether the last byte was an unescaped backslash), inside
  a number, inside a word.
\<close>

datatype scan = Idle | InString string bool | InNumber string | InWord string

definition isSpace :: "char \<Rightarrow> bool" where
  "isSpace c \<longleftrightarrow> c = CHR '' '' \<or> c = CHR 0x09 \<or> c = CHR 0x0D \<or> c = CHR 0x0A"

definition isNumberByte :: "char \<Rightarrow> bool" where
  "isNumberByte c \<longleftrightarrow> isDigit c \<or> List.member ''+-.eE'' c"

definition isLower :: "char \<Rightarrow> bool" where
  "isLower c \<longleftrightarrow> 97 \<le> (of_char c :: nat) \<and> (of_char c :: nat) \<le> 122"

definition scanIdle :: "char \<Rightarrow> (token list \<times> scan) option" where
  "scanIdle c =
     (if isSpace c then Some ([], Idle)
      else if c = CHR ''{'' then Some ([LBrace], Idle)
      else if c = CHR ''}'' then Some ([RBrace], Idle)
      else if c = CHR ''['' then Some ([LBracket], Idle)
      else if c = CHR '']'' then Some ([RBracket], Idle)
      else if c = CHR '':'' then Some ([Colon], Idle)
      else if c = CHR '','' then Some ([Comma], Idle)
      else if c = CHR 0x22 then Some ([], InString [] False)
      else if c = CHR ''-'' \<or> isDigit c then Some ([], InNumber [c])
      else if isLower c then Some ([], InWord [c])
      else None)"

definition scanStep :: "scan \<Rightarrow> char \<Rightarrow> (token list \<times> scan) option" where
  "scanStep st c =
     (case st of
        Idle \<Rightarrow> scanIdle c
      | InString acc escaped \<Rightarrow>
          if escaped then Some ([], InString (c # acc) False)
          else if c = CHR 0x22 then Some ([TString (rev acc)], Idle)
          else Some ([], InString (c # acc) (c = CHR 0x5C))
      | InNumber acc \<Rightarrow>
          if isNumberByte c then Some ([], InNumber (c # acc))
          else map_option (\<lambda>(ts, st'). (TNumber (rev acc) # ts, st')) (scanIdle c)
      | InWord acc \<Rightarrow>
          if isLower c then Some ([], InWord (c # acc))
          else map_option (\<lambda>(ts, st'). (TWord (rev acc) # ts, st')) (scanIdle c))"

fun scanAll :: "scan \<Rightarrow> string \<Rightarrow> token list option" where
  "scanAll st [] =
     (case st of
        Idle \<Rightarrow> Some []
      | InString acc escaped \<Rightarrow> None
      | InNumber acc \<Rightarrow> Some [TNumber (rev acc)]
      | InWord acc \<Rightarrow> Some [TWord (rev acc)])"
| "scanAll st (c # cs) =
     (case scanStep st c of
        None \<Rightarrow> None
      | Some (ts, st') \<Rightarrow> map_option ((@) ts) (scanAll st' cs))"

subsubsection \<open>Values\<close>

text \<open>
  The open arrays and objects, innermost first: the elements read so far, last first,
  and for an object the key that waits for its value.
\<close>

datatype frame =
    ArrayFrame "json list"
  | ObjectFrame "(string \<times> json) list" "string option"

datatype expect =
    ExpValue | ExpValueOrEnd | ExpKeyOrEnd | ExpKey | ExpColon | ExpCommaOrEnd
  | Finished json

definition maxNestingDepth :: nat where
  "maxNestingDepth = 10000"

definition endValue :: "json \<Rightarrow> frame list \<Rightarrow> (frame list \<times> expect) option" where
  "endValue v stack =
     (case stack of
        [] \<Rightarrow> Some ([], Finished v)
      | ArrayFrame els # rest \<Rightarrow> Some (ArrayFrame (v # els) # rest, ExpCommaOrEnd)
      | ObjectFrame ms None # rest \<Rightarrow> None
      | ObjectFrame ms (Some k) # rest \<Rightarrow>
          Some (ObjectFrame ((k, v) # ms) None # rest, ExpCommaOrEnd))"

definition closeFrame :: "token \<Rightarrow> frame list \<Rightarrow> (frame list \<times> expect) option" where
  "closeFrame t stack =
     (case stack of
        ArrayFrame els # rest \<Rightarrow>
          if t = RBracket then endValue (JArray (rev els)) rest else None
      | ObjectFrame ms None # rest \<Rightarrow>
          if t = RBrace then endValue (JObject (rev ms)) rest else None
      | _ \<Rightarrow> None)"

definition beginValue :: "token \<Rightarrow> frame list \<Rightarrow> (frame list \<times> expect) option" where
  "beginValue t stack =
     (case t of
        LBrace \<Rightarrow>
          if length stack < maxNestingDepth
          then Some (ObjectFrame [] None # stack, ExpKeyOrEnd) else None
      | LBracket \<Rightarrow>
          if length stack < maxNestingDepth
          then Some (ArrayFrame [] # stack, ExpValueOrEnd) else None
      | TString raw \<Rightarrow>
          (case unquote raw of None \<Rightarrow> None | Some s \<Rightarrow> endValue (JString s) stack)
      | TNumber raw \<Rightarrow> if validNumber raw then endValue (JNumber raw) stack else None
      | TWord w \<Rightarrow>
          if w = ''true'' then endValue (JBool True) stack
          else if w = ''false'' then endValue (JBool False) stack
          else if w = ''null'' then endValue JNull stack
          else None
      | _ \<Rightarrow> None)"

definition beginKey :: "token \<Rightarrow> frame list \<Rightarrow> (frame list \<times> expect) option" where
  "beginKey t stack =
     (case (t, stack) of
        (TString raw, ObjectFrame ms None # rest) \<Rightarrow>
          (case unquote raw of
             None \<Rightarrow> None
           | Some k \<Rightarrow> Some (ObjectFrame ms (Some k) # rest, ExpColon))
      | _ \<Rightarrow> None)"

definition parseStep :: "frame list \<times> expect \<Rightarrow> token \<Rightarrow> (frame list \<times> expect) option" where
  "parseStep st t =
     (case st of (stack, e) \<Rightarrow>
        (case e of
           ExpValue \<Rightarrow> beginValue t stack
         | ExpValueOrEnd \<Rightarrow> if t = RBracket then closeFrame t stack else beginValue t stack
         | ExpKeyOrEnd \<Rightarrow> if t = RBrace then closeFrame t stack else beginKey t stack
         | ExpKey \<Rightarrow> beginKey t stack
         | ExpColon \<Rightarrow> if t = Colon then Some (stack, ExpValue) else None
         | ExpCommaOrEnd \<Rightarrow>
             if t = Comma then
               (case stack of
                  [] \<Rightarrow> None
                | ArrayFrame els # rest \<Rightarrow> Some (stack, ExpValue)
                | ObjectFrame ms k # rest \<Rightarrow> Some (stack, ExpKey))
             else closeFrame t stack
         | Finished v \<Rightarrow> None))"

fun parseTokens :: "frame list \<times> expect \<Rightarrow> token list \<Rightarrow> json option" where
  "parseTokens st [] = (case st of (stack, Finished v) \<Rightarrow> Some v | _ \<Rightarrow> None)"
| "parseTokens st (t # ts) =
     (case parseStep st t of None \<Rightarrow> None | Some st' \<Rightarrow> parseTokens st' ts)"

definition parseJSON :: "string \<Rightarrow> json option" where
  "parseJSON data =
     (case scanAll Idle data of
        None \<Rightarrow> None
      | Some ts \<Rightarrow> parseTokens ([], ExpValue) ts)"

subsubsection \<open>Storing into the struct\<close>











subsection \<open>Construction\<close>

text \<open>
  The base client's constructor \<^verbatim>\<open>NewClient\<close> and its option directives are not part of
  the adapter's file; the four definitions below are modelled from the specification's
  description of construction: an ordered list of option directives, applied in order,
  later directives overriding earlier ones for the same field. A directive is a function
  on the client, as the type \<^verbatim>\<open>ClientOption\<close> of the source is.
\<close>

type_synonym 'a ClientOption = "'a Client_scheme \<Rightarrow> 'a Client_scheme"

text \<open>Modelled from the spec: the directive for the provider name, which is missing.\<close>

definition WithProvider :: "string \<Rightarrow> 'a ClientOption" where
  "WithProvider provider = (\<lambda>c. c\<lparr>Provider := provider\<rparr>)"

text \<open>Modelled from the spec: the directive for the model identifier, which is missing.\<close>

definition WithModel :: "string \<Rightarrow> 'a ClientOption" where
  "WithModel model = (\<lambda>c. c\<lparr>Model := model\<rparr>)"

text \<open>Modelled from the spec: the directive for the base URL, which is missing.\<close>

definition WithBaseURL :: "string \<Rightarrow> 'a ClientOption" where
  "WithBaseURL url = (\<lambda>c. c\<lparr>BaseURL := url\<rparr>)"

text \<open>
  Modelled from the spec: the constructor \<^verbatim>\<open>NewClient\<close>, which is missing. The directives
  are applied in order to \<open>initial\<close>, the base client before any directive.
\<close>

definition NewClient :: "'a Client_scheme \<Rightarrow> 'a ClientOption list \<Rightarrow> 'a Client_scheme" where
  "NewClient initial opts = foldl (\<lambda>c opt. opt c) initial opts"

text \<open>
  The adapter wraps the base client and installs itself as the base client's hooks, so
  that the base client calls the functions of this theory; the wrapped client is the
  configuration they read.
\<close>

definition NewOllamaClientWithOptions ::
  "'a Client_scheme \<Rightarrow> 'a ClientOption list \<Rightarrow> 'a Client_scheme" where
  "NewOllamaClientWithOptions initial opts =
     (let ollamaOpts = [WithProvider ProviderOllama,
                        WithModel DefaultOllamaModel,
                        WithBaseURL DefaultOllamaBaseURL];
          allOpts = ollamaOpts @ opts;
          baseClient = NewClient initial allOpts
      in baseClient)"

subsection \<open>Reference formulations\<close>

text \<open>
  Stripping at most one trailing slash, in the words of the specification rather than
  through \<open>TrimSuffix\<close>.
\<close>

definition stripTrailingSlash :: "string \<Rightarrow> string" where
  "stripTrailingSlash s = (if s \<noteq> [] \<and> last s = CHR ''/'' then butlast s else s)"










text \<open>Auxiliary notions for the proofs: the first error wins, the last string wins.\<close>

definition firstError :: "json_error option \<Rightarrow> string list \<Rightarrow> json_error option" where
  "firstError saved ks =
     (case saved of
        Some e \<Rightarrow> Some e
      | None \<Rightarrow> (case ks of [] \<Rightarrow> None | k # ks' \<Rightarrow> Some (UnmarshalTypeError k)))"

definition lastOr :: "string \<Rightarrow> string list \<Rightarrow> string" where
  "lastOr d ss = (if ss = [] then d else last ss)"

text \<open>
  A reply in the shape that the source documents,
  \<^verbatim>\<open>{"message": {"content": "..."}, "done": true}\<close>, with the content written as a JSON
  string literal: quote, backslash, line feed, carriage return and tab are escaped.
\<close>

definition quoteByte :: "char \<Rightarrow> string" where
  "quoteByte c =
     (if c = CHR 0x22 then [CHR 0x5C, CHR 0x22]
      else if c = CHR 0x5C then [CHR 0x5C, CHR 0x5C]
      else if c = CHR 0x0A then [CHR 0x5C, CHR ''n'']
      else if c = CHR 0x0D then [CHR 0x5C, CHR ''r'']
      else if c = CHR 0x09 then [CHR 0x5C, CHR ''t'']
      else [c])"

definition quote :: "string \<Rightarrow> string" where
  "quote s = concat (map quoteByte s)"






section \<open>Properties\<close>

subsection \<open>Suffixes\<close>

lemma HasSuffix_iff: "HasSuffix s suffix \<longleftrightarrow> (\<exists>p. s = p @ suffix)"
proof
  assume h: "HasSuffix s suffix"
  then have "s = take (length s - length suffix) s @ suffix"
    by (metis HasSuffix_def append_take_drop_id)
  then show "\<exists>p. s = p @ suffix" ..
next
  assume "\<exists>p. s = p @ suffix"
  then obtain p where "s = p @ suffix" ..
  then show "HasSuffix s suffix"
    by (simp add: HasSuffix_def)
qed

lemma HasSuffix_append [simp]: "HasSuffix (p @ suffix) suffix"
  by (auto simp: HasSuffix_iff)

lemma TrimSuffix_append [simp]: "TrimSuffix (p @ suffix) suffix = p"
  by (simp add: TrimSuffix_def)

lemma HasSuffix_last: "HasSuffix s [c] \<longleftrightarrow> s \<noteq> [] \<and> last s = c"
proof (cases s rule: rev_cases)
  case Nil
  then show ?thesis by (simp add: HasSuffix_def)
next
  case (snoc ys y)
  then show ?thesis by (auto simp: HasSuffix_iff)
qed

lemma TrimSuffix_slash:
  "TrimSuffix s ''/'' = (if s \<noteq> [] \<and> last s = CHR ''/'' then butlast s else s)"
proof (cases s rule: rev_cases)
  case Nil
  then show ?thesis by (simp add: TrimSuffix_def HasSuffix_def)
next
  case (snoc ys y)
  then show ?thesis by (simp add: TrimSuffix_def HasSuffix_last)
qed

lemma HasSuffix_slash_iff:
  "HasSuffix s ''ollama.com'' \<or> HasSuffix s ''ollama.com/'' \<longleftrightarrow>
     HasSuffix (TrimSuffix s ''/'') ''ollama.com''"
proof (cases s rule: rev_cases)
  case Nil
  then show ?thesis by (simp add: TrimSuffix_def HasSuffix_def)
next
  case (snoc ys y)
  show ?thesis
  proof (cases "y = CHR ''/''")
    case True
    have a: "\<not> HasSuffix (ys @ ''/'') ''ollama.com''"
      by (simp add: HasSuffix_iff)
    have b: "HasSuffix (ys @ ''/'') ''ollama.com/'' \<longleftrightarrow> HasSuffix ys ''ollama.com''"
      by (auto simp: HasSuffix_iff)
    from True snoc a b show ?thesis by simp
  next
    case False
    then have a: "TrimSuffix s ''/'' = s"
      using snoc by (simp add: TrimSuffix_slash)
    have b: "\<not> HasSuffix s ''ollama.com/''"
    proof
      assume "HasSuffix s ''ollama.com/''"
      then obtain p where "s = (p @ ''ollama.com'') @ ''/''"
        by (auto simp: HasSuffix_iff)
      with snoc have "y = CHR ''/''" by (metis last_snoc)
      with False show False ..
    qed
    from a b show ?thesis by simp
  qed
qed

subsection \<open>Format classification\<close>

lemma TrimSuffix_stripTrailingSlash: "TrimSuffix s ''/'' = stripTrailingSlash s"
  by (simp add: TrimSuffix_slash stripTrailingSlash_def)

lemma FormatResolver_Native_iff:
  "FormatResolver b = NativeFormat \<longleftrightarrow>
     b = ''https://ollama.com'' \<or> b = ''http://ollama.com'' \<or>
     (\<exists>p. stripTrailingSlash b = p @ ''ollama.com'')"
  unfolding FormatResolver_def
  using HasSuffix_slash_iff [of b]
  by (simp add: HasSuffix_iff TrimSuffix_stripTrailingSlash)

text \<open>
  C1. A base URL is classified as \<open>NativeFormat\<close> exactly when it is
  \<^verbatim>\<open>https://ollama.com\<close> or \<^verbatim>\<open>http://ollama.com\<close>, or when, with one trailing slash
  stripped, it ends with \<^verbatim>\<open>ollama.com\<close>; every other string is classified as
  \<open>CompatibleFormat\<close>, among them the empty string, \<^verbatim>\<open>https://notollama.com/foo\<close> and
  \<^verbatim>\<open>https://api.example.com\<close>.
\<close>

theorem FormatResolver_classification:
  "FormatResolver baseURL =
     (if baseURL = ''https://ollama.com'' \<or> baseURL = ''http://ollama.com'' \<or>
         (\<exists>p. stripTrailingSlash baseURL = p @ ''ollama.com'')
      then NativeFormat else CompatibleFormat) \<and>
   FormatResolver [] = CompatibleFormat \<and>
   FormatResolver ''https://notollama.com/foo'' = CompatibleFormat \<and>
   FormatResolver ''https://api.example.com'' = CompatibleFormat"
proof -
  have "FormatResolver baseURL =
     (if baseURL = ''https://ollama.com'' \<or> baseURL = ''http://ollama.com'' \<or>
         (\<exists>p. stripTrailingSlash baseURL = p @ ''ollama.com'')
      then NativeFormat else CompatibleFormat)"
    using FormatResolver_Native_iff [of baseURL]
    by (cases "FormatResolver baseURL") auto
  moreover have "FormatResolver [] = CompatibleFormat"
    by (simp add: FormatResolver_def HasSuffix_def)
  moreover have "FormatResolver ''https://notollama.com/foo'' = CompatibleFormat"
    by (simp add: FormatResolver_def HasSuffix_def)
  moreover have "FormatResolver ''https://api.example.com'' = CompatibleFormat"
    by (simp add: FormatResolver_def HasSuffix_def)
  ultimately show ?thesis by blast
qed

subsection \<open>Endpoint resolution\<close>

lemma buildUrl_by_format:
  "buildUrl oc =
     (case FormatResolver (BaseURL oc) of
        NativeFormat \<Rightarrow> TrimSuffix (BaseURL oc) ''/'' @ ''/api/chat''
      | CompatibleFormat \<Rightarrow> BaseURL oc @ ''/chat/completions'')"
  by (auto simp: buildUrl_def FormatResolver_def TrimSuffix_slash Let_def)

text \<open>
  C2. \<open>buildUrl\<close> returns the base URL with at most one trailing slash stripped,
  followed by \<^verbatim>\<open>/api/chat\<close>, when the base URL is classified as \<open>NativeFormat\<close>, and the
  base URL as it is, followed by \<^verbatim>\<open>/chat/completions\<close>, otherwise. So
  \<^verbatim>\<open>https://ollama.com/\<close> gives \<^verbatim>\<open>https://ollama.com/api/chat\<close> and
  \<^verbatim>\<open>https://api.example.com\<close> gives \<^verbatim>\<open>https://api.example.com/chat/completions\<close>.
\<close>

theorem buildUrl_endpoint:
  "buildUrl oc =
     (case FormatResolver (BaseURL oc) of
        NativeFormat \<Rightarrow> stripTrailingSlash (BaseURL oc) @ ''/api/chat''
      | CompatibleFormat \<Rightarrow> BaseURL oc @ ''/chat/completions'') \<and>
   buildUrl (oc\<lparr>BaseURL := ''https://ollama.com/''\<rparr>) = ''https://ollama.com/api/chat'' \<and>
   buildUrl (oc\<lparr>BaseURL := ''https://api.example.com''\<rparr>) =
     ''https://api.example.com/chat/completions''"
proof -
  have "buildUrl oc =
     (case FormatResolver (BaseURL oc) of
        NativeFormat \<Rightarrow> stripTrailingSlash (BaseURL oc) @ ''/api/chat''
      | CompatibleFormat \<Rightarrow> BaseURL oc @ ''/chat/completions'')"
    by (simp add: buildUrl_by_format TrimSuffix_stripTrailingSlash split: WireFormat.split)
  moreover have "buildUrl (oc\<lparr>BaseURL := ''https://ollama.com/''\<rparr>) =
      ''https://ollama.com/api/chat''"
    by (simp add: buildUrl_def HasSuffix_def TrimSuffix_def)
  moreover have "buildUrl (oc\<lparr>BaseURL := ''https://api.example.com''\<rparr>) =
      ''https://api.example.com/chat/completions''"
    by (simp add: buildUrl_def HasSuffix_def TrimSuffix_def)
  ultimately show ?thesis by blast
qed

subsection \<open>The three call sites of the classification\<close>

lemma buildMCPRequestBody_by_format:
  "buildMCPRequestBody cb oc s u =
     (case FormatResolver (BaseURL oc) of
        NativeFormat \<Rightarrow>
          [''model'' \<mapsto> AnyString (Model oc),
           ''messages'' \<mapsto> AnyMessages
              ((if s = [] then [] else [[''role'' \<mapsto> ''system'', ''content'' \<mapsto> s]]) @
               [[''role'' \<mapsto> ''user'', ''content'' \<mapsto> u]]),
           ''stream'' \<mapsto> AnyBool False]
      | CompatibleFormat \<Rightarrow> cb oc s u)"
  by (simp add: buildMCPRequestBody_def FormatResolver_def Let_def)

lemma parseMCPResponse_by_format:
  "parseMCPResponse um cp oc body =
     (case FormatResolver (BaseURL oc) of
        NativeFormat \<Rightarrow>
          (case um body of
             Inl err \<Rightarrow> ([], Some (DecodeError err))
           | Inr r \<Rightarrow> if Content (Message r) = [] then ([], Some EmptyReplyError)
                      else (Content (Message r), None))
      | CompatibleFormat \<Rightarrow> cp oc body)"
  by (simp add: parseMCPResponse_def FormatResolver_def Let_def DecodeError_def
      EmptyReplyError_def split: sum.split)

text \<open>
  C5. The classification is a function of the base URL string alone. The three
  extension points each write the test out for themselves, \<open>buildUrl\<close> in two steps, and
  all three take the branch that \<open>FormatResolver\<close> gives for the base URL: three clients
  that share the base URL \<open>b\<close> and differ in every other field are classified alike. The
  three functions return a value and leave the client as it is, so classifying twice
  gives the same answer.
\<close>

theorem classification_of_BaseURL:
  assumes "BaseURL oc1 = b" and "BaseURL oc2 = b" and "BaseURL oc3 = b"
  shows "buildUrl oc1 =
           (case FormatResolver b of
              NativeFormat \<Rightarrow> TrimSuffix b ''/'' @ ''/api/chat''
            | CompatibleFormat \<Rightarrow> b @ ''/chat/completions'') \<and>
         buildMCPRequestBody cb oc2 s u =
           (case FormatResolver b of
              NativeFormat \<Rightarrow>
                [''model'' \<mapsto> AnyString (Model oc2),
                 ''messages'' \<mapsto> AnyMessages
                    ((if s = [] then [] else [[''role'' \<mapsto> ''system'', ''content'' \<mapsto> s]]) @
                     [[''role'' \<mapsto> ''user'', ''content'' \<mapsto> u]]),
                 ''stream'' \<mapsto> AnyBool False]
            | CompatibleFormat \<Rightarrow> cb oc2 s u) \<and>
         parseMCPResponse um cp oc3 body =
           (case FormatResolver b of
              NativeFormat \<Rightarrow>
                (case um body of
                   Inl err \<Rightarrow> ([], Some (DecodeError err))
                 | Inr r \<Rightarrow> if Content (Message r) = [] then ([], Some EmptyReplyError)
                            else (Content (Message r), None))
            | CompatibleFormat \<Rightarrow> cp oc3 body)"
  using assms buildUrl_by_format [of oc1] buildMCPRequestBody_by_format [of cb oc2 s u]
    parseMCPResponse_by_format [of um cp oc3 body]
  by (simp split: WireFormat.split)

theorem classification_of_BaseURL_witness:
  "BaseURL \<lparr>Provider = ''ollama'', APIKey = ''key-one'', BaseURL = ''https://ollama.com/'',
            Model = ''glm-4.7:cloud'', logger = []\<rparr> = ''https://ollama.com/'' \<and>
   BaseURL \<lparr>Provider = ''other'', APIKey = ''key-two'', BaseURL = ''https://ollama.com/'',
            Model = ''llama3'', logger = [''line'']\<rparr> = ''https://ollama.com/'' \<and>
   BaseURL \<lparr>Provider = [], APIKey = [], BaseURL = ''https://ollama.com/'',
            Model = [], logger = []\<rparr> = ''https://ollama.com/'' \<and>
   FormatResolver ''https://ollama.com/'' = NativeFormat \<and>
   buildUrl \<lparr>Provider = ''ollama'', APIKey = ''key-one'', BaseURL = ''https://ollama.com/'',
             Model = ''glm-4.7:cloud'', logger = []\<rparr> = ''https://ollama.com/api/chat'' \<and>
   buildMCPRequestBody (\<lambda>c s u. Map.empty :: unit RequestBody)
     \<lparr>Provider = ''other'', APIKey = ''key-two'', BaseURL = ''https://ollama.com/'',
      Model = ''llama3'', logger = [''line'']\<rparr> [] ''hi'' ''model'' = Some (AnyString ''llama3'') \<and>
   parseMCPResponse (\<lambda>body. Inl (External ())) (\<lambda>c body. (''base'', None))
     \<lparr>Provider = [], APIKey = [], BaseURL = ''https://ollama.com/'',
      Model = [], logger = []\<rparr> ''x'' = ([], Some (DecodeError (External ())))"
proof -
  have n: "FormatResolver ''https://ollama.com/'' = NativeFormat"
    by (simp add: FormatResolver_def HasSuffix_def)
  have t: "TrimSuffix ''https://ollama.com/'' ''/'' = ''https://ollama.com''"
    by (simp add: TrimSuffix_def HasSuffix_def)
  show ?thesis
    using classification_of_BaseURL
      [of "\<lparr>Provider = ''ollama'', APIKey = ''key-one'', BaseURL = ''https://ollama.com/'',
            Model = ''glm-4.7:cloud'', logger = []\<rparr>"
          "''https://ollama.com/''"
          "\<lparr>Provider = ''other'', APIKey = ''key-two'', BaseURL = ''https://ollama.com/'',
            Model = ''llama3'', logger = [''line'']\<rparr>"
          "\<lparr>Provider = [], APIKey = [], BaseURL = ''https://ollama.com/'',
            Model = [], logger = []\<rparr>"
          "\<lambda>c s u. Map.empty :: unit RequestBody" "[]" "''hi''"
          "\<lambda>body. Inl (External ())" "\<lambda>c body. (''base'', None)" "''x''"]
    by (simp add: n t)
qed

subsection \<open>Request payload\<close>

text \<open>
  C4. For a base URL classified as \<open>NativeFormat\<close>, the payload has the three entries
  \<^verbatim>\<open>model\<close> (the configured model), \<^verbatim>\<open>stream\<close> (false) and \<^verbatim>\<open>messages\<close>. The message
  list is the single \<^verbatim>\<open>user\<close> entry with the user prompt when the system prompt is empty,
  and the \<^verbatim>\<open>system\<close> entry with the system prompt followed by that \<^verbatim>\<open>user\<close> entry when it
  is not.
\<close>

theorem buildMCPRequestBody_native:
  assumes "FormatResolver (BaseURL oc) = NativeFormat"
  shows "dom (buildMCPRequestBody cb oc systemPrompt userPrompt) =
           {''model'', ''messages'', ''stream''} \<and>
         buildMCPRequestBody cb oc systemPrompt userPrompt ''model'' =
           Some (AnyString (Model oc)) \<and>
         buildMCPRequestBody cb oc systemPrompt userPrompt ''stream'' =
           Some (AnyBool False) \<and>
         (systemPrompt = [] \<longrightarrow>
            buildMCPRequestBody cb oc systemPrompt userPrompt ''messages'' =
              Some (AnyMessages [[''role'' \<mapsto> ''user'', ''content'' \<mapsto> userPrompt]])) \<and>
         (systemPrompt \<noteq> [] \<longrightarrow>
            buildMCPRequestBody cb oc systemPrompt userPrompt ''messages'' =
              Some (AnyMessages [[''role'' \<mapsto> ''system'', ''content'' \<mapsto> systemPrompt],
                                 [''role'' \<mapsto> ''user'', ''content'' \<mapsto> userPrompt]]))"
  using assms by (auto simp: buildMCPRequestBody_by_format)

theorem buildMCPRequestBody_native_witness:
  "FormatResolver (BaseURL \<lparr>Provider = ''ollama'', APIKey = ''sk-12345678'',
       BaseURL = ''https://ollama.com'', Model = ''glm-4.7:cloud'', logger = []\<rparr>) =
     NativeFormat \<and>
   buildMCPRequestBody (\<lambda>c s u. Map.empty :: unit RequestBody)
     \<lparr>Provider = ''ollama'', APIKey = ''sk-12345678'', BaseURL = ''https://ollama.com'',
      Model = ''glm-4.7:cloud'', logger = []\<rparr>
     ''be brief'' ''hello'' ''messages'' =
     Some (AnyMessages [[''role'' \<mapsto> ''system'', ''content'' \<mapsto> ''be brief''],
                        [''role'' \<mapsto> ''user'', ''content'' \<mapsto> ''hello'']]) \<and>
   buildMCPRequestBody (\<lambda>c s u. Map.empty :: unit RequestBody)
     \<lparr>Provider = ''ollama'', APIKey = ''sk-12345678'', BaseURL = ''https://ollama.com'',
      Model = ''glm-4.7:cloud'', logger = []\<rparr>
     [] ''hello'' ''messages'' =
     Some (AnyMessages [[''role'' \<mapsto> ''user'', ''content'' \<mapsto> ''hello'']])"
proof -
  have h: "FormatResolver (BaseURL \<lparr>Provider = ''ollama'', APIKey = ''sk-12345678'',
       BaseURL = ''https://ollama.com'', Model = ''glm-4.7:cloud'', logger = []\<rparr>) =
     NativeFormat"
    by (simp add: FormatResolver_def)
  show ?thesis
    using h
      buildMCPRequestBody_native
        [OF h, of "\<lambda>c s u. Map.empty :: unit RequestBody" "''be brief''" "''hello''"]
      buildMCPRequestBody_native
        [OF h, of "\<lambda>c s u. Map.empty :: unit RequestBody" "[]" "''hello''"]
    by simp
qed

subsection \<open>The decoder, document by document\<close>

lemma firstError_Nil [simp]: "firstError saved [] = saved"
  by (simp add: firstError_def split: option.split)



lemma lastOr_Nil [simp]: "lastOr d [] = d"
  by (simp add: lastOr_def)














subsection \<open>Replies in the documented shape\<close>

lemma map_option_append_Nil [simp]: "map_option ((@) []) x = x"
  by (cases x) simp_all

lemma map_option_append_single [simp]: "map_option ((@) [t]) x = map_option ((#) t) x"
  by (cases x) simp_all


lemma quote_Nil [simp]: "quote [] = []"
  by (simp add: quote_def)













subsection \<open>Response payload\<close>


lemma parseJSON_null: "parseJSON ''null'' = Some JNull"
  by code_simp














subsection \<open>Delegation\<close>

text \<open>
  C6. For a base URL classified as \<open>CompatibleFormat\<close>, the adapter's payload builder
  and response parser return what the base client's own builder and parser return on the
  same arguments.
\<close>

theorem compatible_delegates:
  assumes "FormatResolver (BaseURL oc) = CompatibleFormat"
  shows "buildMCPRequestBody cb oc systemPrompt userPrompt = cb oc systemPrompt userPrompt \<and>
         parseMCPResponse um cp oc body = cp oc body"
  using assms by (simp add: buildMCPRequestBody_by_format parseMCPResponse_by_format)

theorem compatible_delegates_witness:
  "FormatResolver (BaseURL \<lparr>Provider = ''ollama'', APIKey = ''sk-12345678'',
       BaseURL = ''https://api.example.com'', Model = ''glm-4.7:cloud'', logger = []\<rparr>) =
     CompatibleFormat \<and>
   buildMCPRequestBody (\<lambda>c s u. [''prompt'' \<mapsto> AnyString (s @ u)] :: unit RequestBody)
     \<lparr>Provider = ''ollama'', APIKey = ''sk-12345678'', BaseURL = ''https://api.example.com'',
      Model = ''glm-4.7:cloud'', logger = []\<rparr> ''be brief. '' ''hello'' =
     [''prompt'' \<mapsto> AnyString ''be brief. hello''] \<and>
   parseMCPResponse (\<lambda>body. Inl (External ())) (\<lambda>c body. (rev body, None))
     \<lparr>Provider = ''ollama'', APIKey = ''sk-12345678'', BaseURL = ''https://api.example.com'',
      Model = ''glm-4.7:cloud'', logger = []\<rparr> ''abc'' = (''cba'', None)"
proof -
  have h: "FormatResolver (BaseURL \<lparr>Provider = ''ollama'', APIKey = ''sk-12345678'',
       BaseURL = ''https://api.example.com'', Model = ''glm-4.7:cloud'', logger = []\<rparr>) =
     CompatibleFormat"
    by (simp add: FormatResolver_def HasSuffix_def)
  show ?thesis
    using h
      compatible_delegates
        [OF h, of "\<lambda>c s u. [''prompt'' \<mapsto> AnyString (s @ u)] :: unit RequestBody"
           "''be brief. ''" "''hello''" "\<lambda>body. Inl (External ())"
           "\<lambda>c body. (rev body, None)" "''abc''"]
    by simp
qed

subsection \<open>Configuration setter\<close>

lemma slice_prefix: "4 \<le> length s \<Longrightarrow> slice s 0 4 = Some (take 4 s)"
  by (simp add: slice_def)

lemma slice_suffix:
  "4 \<le> length s \<Longrightarrow>
     slice s (int (length s) - 4) (int (length s)) = Some (drop (length s - 4) s)"
  by (simp add: slice_def nat_diff_distrib')

lemma SetAPIKey_eq:
  "SetAPIKey oc apiKey customURL customModel =
     Some (oc\<lparr>APIKey := apiKey,
              BaseURL := (if customURL \<noteq> [] then customURL else BaseURL oc),
              Model := (if customModel \<noteq> [] then customModel else Model oc),
              logger := logger oc @
                (if 8 < length apiKey
                 then [wrench @ '' [MCP] Ollama API Key: '' @ take 4 apiKey @ ''...'' @
                       drop (length apiKey - 4) apiKey]
                 else []) @
                [if customURL \<noteq> []
                 then wrench @ '' [MCP] Ollama using custom BaseURL: '' @ customURL
                 else wrench @ '' [MCP] Ollama using default BaseURL: '' @ BaseURL oc,
                 if customModel \<noteq> []
                 then wrench @ '' [MCP] Ollama using custom Model: '' @ customModel
                 else wrench @ '' [MCP] Ollama using default Model: '' @ Model oc]\<rparr>)"
  by (simp add: SetAPIKey_def Infof_def slice_prefix slice_suffix Let_def)

text \<open>
  C7. \<open>SetAPIKey\<close> always returns (no slice panics). In the client it returns, the
  credential is the supplied one; the base URL is the supplied override when that is not
  empty and the previous base URL when it is; the model follows the same rule; the
  provider and the base client's further fields are untouched. With the credential
  \<^verbatim>\<open>sk-12345678\<close> and empty overrides, base URL and model are unchanged.
\<close>

theorem SetAPIKey_fields:
  "(\<exists>oc'. SetAPIKey oc apiKey customURL customModel = Some oc' \<and>
          APIKey oc' = apiKey \<and>
          BaseURL oc' = (if customURL \<noteq> [] then customURL else BaseURL oc) \<and>
          Model oc' = (if customModel \<noteq> [] then customModel else Model oc) \<and>
          Provider oc' = Provider oc \<and>
          Client.more oc' = Client.more oc) \<and>
   (\<exists>oc'. SetAPIKey oc ''sk-12345678'' [] [] = Some oc' \<and>
          APIKey oc' = ''sk-12345678'' \<and>
          BaseURL oc' = BaseURL oc \<and>
          Model oc' = Model oc)"
  by (simp add: SetAPIKey_eq)

text \<open>
  C8. \<open>SetAPIKey\<close> logs the line with the redacted credential exactly when the
  credential is longer than eight bytes, and that line shows the first four bytes of the
  credential, three dots, and the last four bytes. For a credential of at most eight bytes
  the call logs only the line for the base URL and the line for the model, neither of
  which contains the credential.
\<close>

theorem SetAPIKey_log:
  "\<exists>oc'. SetAPIKey oc apiKey customURL customModel = Some oc' \<and>
     logger oc' =
       logger oc @
       (if 8 < length apiKey
        then [wrench @ '' [MCP] Ollama API Key: '' @ take 4 apiKey @ ''...'' @
              drop (length apiKey - 4) apiKey]
        else []) @
       [if customURL \<noteq> []
        then wrench @ '' [MCP] Ollama using custom BaseURL: '' @ customURL
        else wrench @ '' [MCP] Ollama using default BaseURL: '' @ BaseURL oc,
        if customModel \<noteq> []
        then wrench @ '' [MCP] Ollama using custom Model: '' @ customModel
        else wrench @ '' [MCP] Ollama using default Model: '' @ Model oc]"
  by (simp add: SetAPIKey_eq)

subsection \<open>Authentication header\<close>

lemma CanonicalMIMEHeaderKey_Authorization:
  "CanonicalMIMEHeaderKey ''Authorization'' = ''Authorization''"
  by (simp add: CanonicalMIMEHeaderKey_def validHeaderFieldByte_def Let_def)

text \<open>
  C9. Whatever the base URL, and so whatever the wire format, \<open>setAuthHeader\<close> sets the
  \<^verbatim>\<open>Authorization\<close> header to the single value \<^verbatim>\<open>Bearer\<close>, a space, and the configured
  credential, and leaves the other headers as they are.
\<close>

theorem setAuthHeader_bearer:
  "setAuthHeader (oc\<lparr>BaseURL := baseURL\<rparr>) reqHeaders =
     reqHeaders(''Authorization'' \<mapsto> [''Bearer '' @ APIKey oc])"
  by (simp add: setAuthHeader_def Header_Set_def CanonicalMIMEHeaderKey_Authorization)

subsection \<open>Default configuration\<close>

lemma NewOllamaClientWithOptions_Nil:
  "NewOllamaClientWithOptions initial [] =
     initial\<lparr>Provider := ProviderOllama, Model := DefaultOllamaModel,
             BaseURL := DefaultOllamaBaseURL\<rparr>"
  by (simp add: NewOllamaClientWithOptions_def NewClient_def WithBaseURL_def WithModel_def
      WithProvider_def)

lemma FormatResolver_default: "FormatResolver DefaultOllamaBaseURL = CompatibleFormat"
  by (simp add: DefaultOllamaBaseURL_def FormatResolver_def HasSuffix_def)

text \<open>
  C10. A client constructed with no options of the caller has the base URL
  \<^verbatim>\<open>https://api.ollama.com/v1\<close>. That URL contains \<^verbatim>\<open>ollama.com\<close> and is classified as
  \<open>CompatibleFormat\<close>: the endpoint is \<^verbatim>\<open>https://api.ollama.com/v1/chat/completions\<close>, and
  payload construction and response parsing are the base client's. The bare host URL
  \<^verbatim>\<open>https://api.ollama.com\<close> is classified as \<open>NativeFormat\<close>.
\<close>

theorem default_configuration:
  "BaseURL (NewOllamaClientWithOptions initial []) = ''https://api.ollama.com/v1'' \<and>
   BaseURL (NewOllamaClientWithOptions initial []) = ''https://api.'' @ ''ollama.com'' @ ''/v1'' \<and>
   FormatResolver (BaseURL (NewOllamaClientWithOptions initial [])) = CompatibleFormat \<and>
   buildUrl (NewOllamaClientWithOptions initial []) =
     ''https://api.ollama.com/v1/chat/completions'' \<and>
   buildMCPRequestBody cb (NewOllamaClientWithOptions initial []) systemPrompt userPrompt =
     cb (NewOllamaClientWithOptions initial []) systemPrompt userPrompt \<and>
   parseMCPResponse um cp (NewOllamaClientWithOptions initial []) body =
     cp (NewOllamaClientWithOptions initial []) body \<and>
   FormatResolver ''https://api.ollama.com'' = NativeFormat"
proof -
  have "FormatResolver ''https://api.ollama.com'' = NativeFormat"
    by (simp add: FormatResolver_def HasSuffix_def)
  moreover have "DefaultOllamaBaseURL @ ''/chat/completions'' =
      ''https://api.ollama.com/v1/chat/completions''"
    by (simp add: DefaultOllamaBaseURL_def)
  moreover have "DefaultOllamaBaseURL = ''https://api.ollama.com/v1''"
    by (simp add: DefaultOllamaBaseURL_def)
  ultimately show ?thesis
    by (simp add: NewOllamaClientWithOptions_Nil buildUrl_by_format
        buildMCPRequestBody_by_format parseMCPResponse_by_format FormatResolver_default)
qed

end
